theory Spec2Isabelle
  imports Main
begin

section \<open>Python values, exceptions and the outside world\<close>

text \<open>
  The driver is dynamically typed Python. A value that crosses the JSON boundary (a parsed
  response, a field of a \<open>DeviceInfo\<close>) is a \<open>pyval\<close>; a dict is an association list
  whose first binding of a key is the one that counts.
\<close>

datatype pyval =
    PNone
  | PBool bool
  | PInt int
  | PStr string
  | PList "pyval list"
  | PDict "(string \<times> pyval) list"

text \<open>
  Every \<open>raise\<close> of the source, and every exception of a library that the source lets
  through, is a value \<open>Inl e\<close>; a value that is returned is \<open>Inr v\<close>.
\<close>

datatype error =
    TypeError
  | KeyError string
  | IndexError
  | AssertionError
  | JSONDecodeError
  | ConnectionError
  | CommandNotFoundException pyval int
  | DeviceNotFoundException string

text \<open>
  An HTTP GET. The source formats \<open>f"http://{ip_address}:{port}{uri}"\<close>; the three parts
  are kept apart here.
\<close>

record http_request =
  host :: pyval
  port :: int
  uri :: string

datatype effect = HttpGet http_request

text \<open>
  What the libraries answer. \<open>json_loads\<close> and \<open>json_dumps\<close> are \<open>json.loads\<close> and
  \<open>json.dumps\<close>; \<open>requests_get\<close> is the body text of \<open>requests.get(url, timeout=10)\<close>;
  \<open>session_get\<close> is the body text of the \<open>aiohttp\<close> GET; \<open>get_service_info\<close> is
  \<open>Zeroconf.get_service_info\<close> followed by \<open>parsed_addresses()\<close> (\<open>None\<close>: no info);
  \<open>lirc_Client\<close> is \<open>lirc.Client()\<close> (\<open>None\<close>: it raised \<open>LircdConnectionError\<close>);
  \<open>read_icon\<close> is the content of an icon file of the package; \<open>power_off\<close> is the
  function of that name that \<open>commands.py\<close> imports from \<open>eversolo.py\<close>, which does not
  define it.
\<close>

record env =
  json_loads :: "string \<Rightarrow> error + pyval"
  json_dumps :: "pyval \<Rightarrow> string"
  requests_get :: "http_request \<Rightarrow> error + string"
  session_get :: "http_request \<Rightarrow> error + string"
  get_service_info :: "string \<Rightarrow> string \<Rightarrow> string list option"
  lirc_Client :: "unit option"
  read_icon :: "string \<Rightarrow> string"
  power_off :: "pyval \<Rightarrow> (error + unit) \<times> effect list"

text \<open>\<open>v[key]\<close> with a string key: only a dict accepts it.\<close>

fun py_getitem :: "pyval \<Rightarrow> string \<Rightarrow> error + pyval" where
  "py_getitem (PDict kvs) k = (case map_of kvs k of None \<Rightarrow> Inl (KeyError k) | Some v \<Rightarrow> Inr v)"
| "py_getitem v k = Inl TypeError"

text \<open>\<open>xs[0]\<close> on a list.\<close>

fun py_first :: "'a list \<Rightarrow> error + 'a" where
  "py_first [] = Inl IndexError"
| "py_first (x # xs) = Inr x"

section \<open>eversolo.py: the device control client\<close>

definition connect_device ::
  "env \<Rightarrow> string \<Rightarrow> int \<Rightarrow> string option \<Rightarrow> string option \<Rightarrow> error + pyval" where
  "connect_device e ip_address prt client_name client_uuid =
     (case client_name of
        None \<Rightarrow> Inl AssertionError
      | Some cn \<Rightarrow>
         (case client_uuid of
            None \<Rightarrow> Inl AssertionError
          | Some cu \<Rightarrow>
             (case requests_get e
                     \<lparr>host = PStr ip_address, port = prt,
                      uri = ''/ZidooControlCenter/connect?name='' @ cn @ ''&uuid='' @ cu
                            @ ''&tag=0&type=1''\<rparr> of
                Inl ex \<Rightarrow> Inl ex
              | Inr response_text \<Rightarrow> json_loads e response_text)))"

definition execute_command ::
  "env \<Rightarrow> pyval \<Rightarrow> int \<Rightarrow> string \<Rightarrow> (error + pyval) \<times> effect list" where
  "execute_command e ip_address prt u =
     (let url = \<lparr>host = ip_address, port = prt, uri = u\<rparr> in
      (case session_get e url of
         Inl ex \<Rightarrow> Inl ex
       | Inr response_text \<Rightarrow> json_loads e response_text,
       [HttpGet url]))"

text \<open>
  Every command function of \<open>eversolo.py\<close> has the same body after its call:
  \<open>if response["status"] != 200: pass\<close>. The subscript is evaluated, both branches
  return \<open>None\<close>.
\<close>

definition check_status :: "(error + pyval) \<times> effect list \<Rightarrow> (error + unit) \<times> effect list" where
  "check_status r =
     (case fst r of
        Inl ex \<Rightarrow> Inl ex
      | Inr response \<Rightarrow>
         (case py_getitem response ''status'' of
            Inl ex \<Rightarrow> Inl ex
          | Inr st \<Rightarrow> (if st \<noteq> PInt 200 then Inr () else Inr ())),
      snd r)"

definition play_or_pause :: "env \<Rightarrow> pyval \<Rightarrow> int \<Rightarrow> (error + unit) \<times> effect list" where
  "play_or_pause e ip_address prt =
     check_status (execute_command e ip_address prt ''/ZidooMusicControl/v2/playOrPause'')"

definition increase_volume :: "env \<Rightarrow> pyval \<Rightarrow> int \<Rightarrow> (error + unit) \<times> effect list" where
  "increase_volume e ip_address prt =
     check_status (execute_command e ip_address prt
       ''/ZidooControlCenter/RemoteControl/sendkey?key=Key.VolumeUp'')"

definition decrease_volume :: "env \<Rightarrow> pyval \<Rightarrow> int \<Rightarrow> (error + unit) \<times> effect list" where
  "decrease_volume e ip_address prt =
     check_status (execute_command e ip_address prt
       ''/ZidooControlCenter/RemoteControl/sendkey?key=Key.VolumeDown'')"

definition next_track :: "env \<Rightarrow> pyval \<Rightarrow> int \<Rightarrow> (error + unit) \<times> effect list" where
  "next_track e ip_address prt =
     check_status (execute_command e ip_address prt ''/ZidooMusicControl/v2/playNext'')"

definition previous_track :: "env \<Rightarrow> pyval \<Rightarrow> int \<Rightarrow> (error + unit) \<times> effect list" where
  "previous_track e ip_address prt =
     check_status (execute_command e ip_address prt ''/ZidooMusicControl/v2/playLast'')"

definition change_vu_display :: "env \<Rightarrow> pyval \<Rightarrow> int \<Rightarrow> (error + unit) \<times> effect list" where
  "change_vu_display e ip_address prt =
     check_status (execute_command e ip_address prt ''/ZidooMusicControl/v2/changVUDisplay'')"

definition toggle_screen :: "env \<Rightarrow> pyval \<Rightarrow> int \<Rightarrow> (error + unit) \<times> effect list" where
  "toggle_screen e ip_address prt =
     check_status (execute_command e ip_address prt
       ''/ZidooMusicControl/v2/setPowerOption?tag=screen'')"

definition set_input_internal_player ::
  "env \<Rightarrow> pyval \<Rightarrow> int \<Rightarrow> (error + unit) \<times> effect list" where
  "set_input_internal_player e ip_address prt =
     check_status (execute_command e ip_address prt
       ''/ZidooMusicControl/v2/setInputList?tag=XMOS&index=4'')"

definition set_input_bluetooth :: "env \<Rightarrow> pyval \<Rightarrow> int \<Rightarrow> (error + unit) \<times> effect list" where
  "set_input_bluetooth e ip_address prt =
     check_status (execute_command e ip_address prt
       ''/ZidooMusicControl/v2/setInputList?tag=BT&index=4'')"

definition set_input_usb :: "env \<Rightarrow> pyval \<Rightarrow> int \<Rightarrow> (error + unit) \<times> effect list" where
  "set_input_usb e ip_address prt =
     check_status (execute_command e ip_address prt
       ''/ZidooMusicControl/v2/setInputList?tag=USB&index=4'')"

definition set_input_optical :: "env \<Rightarrow> pyval \<Rightarrow> int \<Rightarrow> (error + unit) \<times> effect list" where
  "set_input_optical e ip_address prt =
     check_status (execute_command e ip_address prt
       ''/ZidooMusicControl/v2/setInputList?tag=SPDIF&index=4'')"

definition set_input_coax :: "env \<Rightarrow> pyval \<Rightarrow> int \<Rightarrow> (error + unit) \<times> effect list" where
  "set_input_coax e ip_address prt =
     check_status (execute_command e ip_address prt
       ''/ZidooMusicControl/v2/setInputList?tag=RCA&index=4'')"

definition set_output_balxlr :: "env \<Rightarrow> pyval \<Rightarrow> int \<Rightarrow> (error + unit) \<times> effect list" where
  "set_output_balxlr e ip_address prt =
     check_status (execute_command e ip_address prt
       ''/ZidooMusicControl/v2/setOutInputList?tag=XLR&index=0'')"

definition set_output_analog_rca :: "env \<Rightarrow> pyval \<Rightarrow> int \<Rightarrow> (error + unit) \<times> effect list" where
  "set_output_analog_rca e ip_address prt =
     check_status (execute_command e ip_address prt
       ''/ZidooMusicControl/v2/setOutInputList?tag=RCA&index=0'')"

definition set_output_xlr_rca :: "env \<Rightarrow> pyval \<Rightarrow> int \<Rightarrow> (error + unit) \<times> effect list" where
  "set_output_xlr_rca e ip_address prt =
     check_status (execute_command e ip_address prt
       ''/ZidooMusicControl/v2/setOutInputList?tag=XLRRCA&index=0'')"

definition set_output_hdmi :: "env \<Rightarrow> pyval \<Rightarrow> int \<Rightarrow> (error + unit) \<times> effect list" where
  "set_output_hdmi e ip_address prt =
     check_status (execute_command e ip_address prt
       ''/ZidooMusicControl/v2/setOutInputList?tag=HDMI&index=0'')"

definition set_output_spdif :: "env \<Rightarrow> pyval \<Rightarrow> int \<Rightarrow> (error + unit) \<times> effect list" where
  "set_output_spdif e ip_address prt =
     check_status (execute_command e ip_address prt
       ''/ZidooMusicControl/v2/setOutInputList?tag=SPDIF&index=0'')"

definition set_output_usb :: "env \<Rightarrow> pyval \<Rightarrow> int \<Rightarrow> (error + unit) \<times> effect list" where
  "set_output_usb e ip_address prt =
     check_status (execute_command e ip_address prt
       ''/ZidooMusicControl/v2/setOutInputList?tag=USB&index=0'')"

section \<open>commands.py: the command catalog\<close>

text \<open>
  The two command classes. A callback is called with the address alone, so the port is its
  default 9529. \<open>lirc_client\<close> is \<open>None\<close> when \<open>lirc.Client()\<close> raised
  \<open>LircdConnectionError\<close> in the constructor.
\<close>

type_synonym CallbackType = "env \<Rightarrow> pyval \<Rightarrow> (error + unit) \<times> effect list"

datatype DeviceCommand =
    DmpA6HttpDeviceCommand
      (cmd_id: int) (title: string) (icon: string) (ip_address: pyval) CallbackType
  | DmpA6PowerToggleCommand
      (cmd_id: int) (title: string) (icon: string) (ip_address: pyval) "unit option"

definition new_DmpA6PowerToggleCommand ::
  "env \<Rightarrow> int \<Rightarrow> string \<Rightarrow> string \<Rightarrow> pyval \<Rightarrow> DeviceCommand" where
  "new_DmpA6PowerToggleCommand e i t ic device =
     DmpA6PowerToggleCommand i t ic device (lirc_Client e)"

fun execute :: "env \<Rightarrow> DeviceCommand \<Rightarrow> (error + unit) \<times> effect list" where
  "execute e (DmpA6HttpDeviceCommand i t ic ip callback) = callback e ip"
| "execute e (DmpA6PowerToggleCommand i t ic ip lirc_client) =
     (case lirc_client of
        None \<Rightarrow> power_off e ip
      | Some c \<Rightarrow> (Inr (), []))"

definition TOGGLE_POWER :: int where "TOGGLE_POWER = 1"
definition TOGGLE_DISPLAY :: int where "TOGGLE_DISPLAY = 2"
definition TOGGLE_VU :: int where "TOGGLE_VU = 3"
definition VOLUME_UP :: int where "VOLUME_UP = 4"
definition VOLUME_DOWN :: int where "VOLUME_DOWN = 5"
definition PLAY_PAUSE :: int where "PLAY_PAUSE = 6"
definition PLAY_NEXT :: int where "PLAY_NEXT = 7"
definition PLAY_PREVIOUS :: int where "PLAY_PREVIOUS = 8"
definition INPUT_INTERNAL_PLAYER :: int where "INPUT_INTERNAL_PLAYER = 10"
definition INPUT_BLUETOOTH :: int where "INPUT_BLUETOOTH = 11"
definition INPUT_USB :: int where "INPUT_USB = 12"
definition INPUT_OPTICAL :: int where "INPUT_OPTICAL = 13"
definition INPUT_COAX :: int where "INPUT_COAX = 14"
definition OUTPUT_BALXLR :: int where "OUTPUT_BALXLR = 15"
definition OUTPUT_ANALOG_RCA :: int where "OUTPUT_ANALOG_RCA = 16"
definition OUTPUT_XLR_RCA :: int where "OUTPUT_XLR_RCA = 17"
definition OUTPUT_HDMI :: int where "OUTPUT_HDMI = 18"
definition OUTPUT_SPDIF :: int where "OUTPUT_SPDIF = 19"
definition OUTPUT_USB_DAC :: int where "OUTPUT_USB_DAC = 20"

definition create_commands :: "env \<Rightarrow> pyval \<Rightarrow> DeviceCommand list" where
  "create_commands e device = [
     new_DmpA6PowerToggleCommand e TOGGLE_POWER ''On/Off''
       (read_icon e ''toggle-power.png'') device,
     DmpA6HttpDeviceCommand TOGGLE_DISPLAY ''Display on/off''
       (read_icon e ''toggle-display.png'') device (\<lambda>e ip. toggle_screen e ip 9529),
     DmpA6HttpDeviceCommand TOGGLE_VU ''Change VU''
       (read_icon e ''toggle-vu.png'') device (\<lambda>e ip. change_vu_display e ip 9529),
     DmpA6HttpDeviceCommand VOLUME_UP ''Volume +''
       (read_icon e ''volume-up.png'') device (\<lambda>e ip. increase_volume e ip 9529),
     DmpA6HttpDeviceCommand VOLUME_DOWN ''Volume -''
       (read_icon e ''volume-down.png'') device (\<lambda>e ip. decrease_volume e ip 9529),
     DmpA6HttpDeviceCommand PLAY_PAUSE ''Play/Pause''
       (read_icon e ''play-pause.png'') device (\<lambda>e ip. play_or_pause e ip 9529),
     DmpA6HttpDeviceCommand PLAY_NEXT ''Next Track''
       (read_icon e ''play-next.png'') device (\<lambda>e ip. next_track e ip 9529),
     DmpA6HttpDeviceCommand PLAY_PREVIOUS ''Previous Track''
       (read_icon e ''play-previous.png'') device (\<lambda>e ip. previous_track e ip 9529),
     DmpA6HttpDeviceCommand INPUT_INTERNAL_PLAYER ''Input: Internal Player''
       (read_icon e ''in-internal-player.png'') device
       (\<lambda>e ip. set_input_internal_player e ip 9529),
     DmpA6HttpDeviceCommand INPUT_BLUETOOTH ''Input: Bluetooth''
       (read_icon e ''in-bluetooth.png'') device (\<lambda>e ip. set_input_bluetooth e ip 9529),
     DmpA6HttpDeviceCommand INPUT_USB ''Input: USB''
       (read_icon e ''in-usb.png'') device (\<lambda>e ip. set_input_usb e ip 9529),
     DmpA6HttpDeviceCommand INPUT_OPTICAL ''Input: Optical''
       (read_icon e ''in-optical.png'') device (\<lambda>e ip. set_input_optical e ip 9529),
     DmpA6HttpDeviceCommand INPUT_COAX ''Input: Coax''
       (read_icon e ''in-coax.png'') device (\<lambda>e ip. set_input_coax e ip 9529),
     DmpA6HttpDeviceCommand OUTPUT_BALXLR ''Output: Balanced XLR''
       (read_icon e ''out-balxlr.png'') device (\<lambda>e ip. set_output_balxlr e ip 9529),
     DmpA6HttpDeviceCommand OUTPUT_ANALOG_RCA ''Output: Analog RCA''
       (read_icon e ''out-analog-rca.png'') device (\<lambda>e ip. set_output_analog_rca e ip 9529),
     DmpA6HttpDeviceCommand OUTPUT_XLR_RCA ''Output: XLR/RCA''
       (read_icon e ''out-xlr-rca.png'') device (\<lambda>e ip. set_output_xlr_rca e ip 9529),
     DmpA6HttpDeviceCommand OUTPUT_HDMI ''Output: HDMI''
       (read_icon e ''out-hdmi.png'') device (\<lambda>e ip. set_output_hdmi e ip 9529),
     DmpA6HttpDeviceCommand OUTPUT_SPDIF ''Output: ''
       (read_icon e ''out-spdif.png'') device (\<lambda>e ip. set_output_spdif e ip 9529),
     DmpA6HttpDeviceCommand OUTPUT_USB_DAC ''Output: ''
       (read_icon e ''out-usb-dac.png'') device (\<lambda>e ip. set_output_usb e ip 9529)
   ]"

section \<open>device_driver.py: the driver\<close>

record DeviceInfo =
  name :: pyval
  device_id :: pyval

record DmpA6DeviceDriver =
  device_info :: DeviceInfo
  commands :: "DeviceCommand list"

definition new_DmpA6DeviceDriver :: "env \<Rightarrow> DeviceInfo \<Rightarrow> DmpA6DeviceDriver" where
  "new_DmpA6DeviceDriver e info =
     \<lparr>device_info = info, commands = create_commands e (device_id info)\<rparr>"

definition get_commands :: "DmpA6DeviceDriver \<Rightarrow> DeviceCommand list" where
  "get_commands self = commands self"

text \<open>
  \<open>get_command\<close> returns the driver with its result, so that what it leaves of the
  catalog can be stated.
\<close>

definition get_command ::
  "DmpA6DeviceDriver \<Rightarrow> int \<Rightarrow> (error + DeviceCommand) \<times> DmpA6DeviceDriver" where
  "get_command self cid =
     (let result = filter (\<lambda>c. cmd_id c = cid) (get_commands self) in
      if length result > 0 then (Inr (result ! 0), self)
      else (Inl (CommandNotFoundException (name (device_info self)) cid), self))"

definition remote_layout_size :: "int \<times> int" where
  "remote_layout_size = (3, 9)"

definition remote_layout :: "int list list" where
  "remote_layout = [
     [TOGGLE_POWER, TOGGLE_DISPLAY, TOGGLE_VU],
     [VOLUME_DOWN, -1, VOLUME_UP],
     [PLAY_PREVIOUS, PLAY_PAUSE, PLAY_NEXT],
     [-1, -1, -1],
     [INPUT_INTERNAL_PLAYER, INPUT_BLUETOOTH, INPUT_USB],
     [INPUT_OPTICAL, -1, INPUT_COAX],
     [-1, -1, -1],
     [OUTPUT_BALXLR, OUTPUT_ANALOG_RCA, OUTPUT_XLR_RCA],
     [OUTPUT_HDMI, OUTPUT_SPDIF, OUTPUT_USB_DAC]
   ]"

section \<open>device_driver.py: discovery and the device registry\<close>

text \<open>
  The state that the listener and the registry share: \<open>devices\<close> is the list
  \<open>ZeroconfBrowser._devices\<close> (one instance for the process), \<open>cache\<close> is the content of
  the dbm file \<open>eversolo.cache\<close>, key to stored text.
\<close>

record registry =
  devices :: "DeviceInfo list"
  cache :: "string \<rightharpoonup> string"

text \<open>
  The body of the \<open>try\<close> block of \<open>add_service\<close>: any exception in it, also the
  \<open>IndexError\<close> of \<open>addresses[0]\<close>, is caught by \<open>except Exception\<close>.
\<close>

definition confirm_service :: "env \<Rightarrow> string list \<Rightarrow> error + DeviceInfo" where
  "confirm_service e addresses =
     (case py_first addresses of
        Inl ex \<Rightarrow> Inl ex
      | Inr a \<Rightarrow>
     (case connect_device e a 9529 (Some ''PiControlHub'')
             (Some ''f6c4ad46-f0d3-11ee-a951-0242ac120002'') of
        Inl ex \<Rightarrow> Inl ex
      | Inr raw_device_info \<Rightarrow>
     (case py_getitem raw_device_info ''device'' of
        Inl ex \<Rightarrow> Inl ex
      | Inr d1 \<Rightarrow>
     (case py_getitem d1 ''name'' of
        Inl ex \<Rightarrow> Inl ex
      | Inr n \<Rightarrow>
     (case py_getitem raw_device_info ''device'' of
        Inl ex \<Rightarrow> Inl ex
      | Inr d2 \<Rightarrow>
     (case py_getitem d2 ''host'' of
        Inl ex \<Rightarrow> Inl ex
      | Inr h \<Rightarrow> Inr \<lparr>name = n, device_id = h\<rparr>))))))"

definition add_service :: "env \<Rightarrow> string \<Rightarrow> string \<Rightarrow> registry \<Rightarrow> registry" where
  "add_service e stype service_name s =
     (case get_service_info e stype service_name of
        None \<Rightarrow> s
      | Some addresses \<Rightarrow>
         (case confirm_service e addresses of
            Inl ex \<Rightarrow> s
          | Inr info \<Rightarrow> s\<lparr>devices := devices s @ [info]\<rparr>))"

definition update_service :: "env \<Rightarrow> string \<Rightarrow> string \<Rightarrow> registry \<Rightarrow> registry" where
  "update_service e stype service_name s = s"

definition remove_service :: "env \<Rightarrow> string \<Rightarrow> string \<Rightarrow> registry \<Rightarrow> registry" where
  "remove_service e stype service_name s = s"

text \<open>
  \<open>_cached_devices\<close> reads the entry with \<open>json.loads[jsn]\<close>: the function is
  subscripted, not called, and Python raises \<open>TypeError\<close> there whatever the text is.
\<close>

definition json_loads_subscript :: "env \<Rightarrow> string \<Rightarrow> error + pyval" where
  "json_loads_subscript e jsn = Inl TypeError"

fun map_results :: "('a \<Rightarrow> error + 'b) \<Rightarrow> 'a list \<Rightarrow> error + 'b list" where
  "map_results f [] = Inr []"
| "map_results f (x # xs) =
     (case f x of
        Inl ex \<Rightarrow> Inl ex
      | Inr y \<Rightarrow> (case map_results f xs of Inl ex \<Rightarrow> Inl ex | Inr ys \<Rightarrow> Inr (y # ys)))"

definition device_of_jsn :: "pyval \<Rightarrow> error + DeviceInfo" where
  "device_of_jsn d =
     (case py_getitem d ''name'' of
        Inl ex \<Rightarrow> Inl ex
      | Inr n \<Rightarrow>
         (case py_getitem d ''device_id'' of
            Inl ex \<Rightarrow> Inl ex
          | Inr i \<Rightarrow> Inr \<lparr>name = n, device_id = i\<rparr>))"

text \<open>\<open>list(map(..., devices_jsn))\<close>: what Python iterates over in each kind of value.\<close>

fun devices_of_jsn :: "pyval \<Rightarrow> error + DeviceInfo list" where
  "devices_of_jsn (PList ds) = map_results device_of_jsn ds"
| "devices_of_jsn (PDict kvs) = map_results device_of_jsn (map (\<lambda>kv. PStr (fst kv)) kvs)"
| "devices_of_jsn (PStr cs) = map_results device_of_jsn (map (\<lambda>c. PStr [c]) cs)"
| "devices_of_jsn v = Inl TypeError"

definition cached_devices :: "env \<Rightarrow> registry \<Rightarrow> error + DeviceInfo list" where
  "cached_devices e s =
     (case cache s ''cached_devices'' of
        Some jsn \<Rightarrow>
          (case json_loads_subscript e jsn of
             Inl ex \<Rightarrow> Inl ex
           | Inr devices_jsn \<Rightarrow> devices_of_jsn devices_jsn)
      | None \<Rightarrow> Inr (devices s))"

definition devices_to_jsn :: "DeviceInfo list \<Rightarrow> pyval" where
  "devices_to_jsn ds =
     PList (map (\<lambda>d. PDict [(''name'', name d), (''device_id'', device_id d)]) ds)"

definition cache_devices :: "env \<Rightarrow> DeviceInfo list \<Rightarrow> registry \<Rightarrow> registry" where
  "cache_devices e ds s =
     s\<lparr>cache := (cache s)(''cached_devices'' \<mapsto> json_dumps e (devices_to_jsn ds))\<rparr>"

definition get_devices :: "env \<Rightarrow> registry \<Rightarrow> (error + DeviceInfo list) \<times> registry" where
  "get_devices e s =
     (if length (devices s) = 0 then (cached_devices e s, s)
      else (let s' = cache_devices e (devices s) s in (Inr (devices s'), s')))"

definition get_device :: "env \<Rightarrow> string \<Rightarrow> registry \<Rightarrow> (error + DeviceInfo) \<times> registry" where
  "get_device e did s =
     (case get_devices e s of
        (Inl ex, s') \<Rightarrow> (Inl ex, s')
      | (Inr listed, s') \<Rightarrow>
         (let found = filter (\<lambda>d. device_id d = PStr did) listed in
          if length found = 0 then (Inl (DeviceNotFoundException did), s')
          else (Inr (found ! 0), s')))"

definition create_device_instance ::
  "env \<Rightarrow> string \<Rightarrow> registry \<Rightarrow> (error + DmpA6DeviceDriver) \<times> registry" where
  "create_device_instance e did s =
     (case get_device e did s of
        (Inl ex, s') \<Rightarrow> (Inl ex, s')
      | (Inr info, s') \<Rightarrow> (Inr (new_DmpA6DeviceDriver e info), s'))"

text \<open>
  The operations that reach the shared state: the three callbacks of the listener and the
  three lookups of the descriptor. \<open>step\<close> is the state one of them leaves.
\<close>

datatype event =
    AddService string string
  | UpdateService string string
  | RemoveService string string
  | GetDevices
  | GetDevice string
  | CreateDeviceInstance string

fun step :: "env \<Rightarrow> event \<Rightarrow> registry \<Rightarrow> registry" where
  "step e (AddService t n) s = add_service e t n s"
| "step e (UpdateService t n) s = update_service e t n s"
| "step e (RemoveService t n) s = remove_service e t n s"
| "step e GetDevices s = snd (get_devices e s)"
| "step e (GetDevice did) s = snd (get_device e did s)"
| "step e (CreateDeviceInstance did) s = snd (create_device_instance e did s)"

fun run :: "env \<Rightarrow> event list \<Rightarrow> registry \<Rightarrow> registry" where
  "run e [] s = s"
| "run e (ev # evs) s = run e evs (step e ev s)"

section \<open>A sample network\<close>

text \<open>
  One DMP-A6 at 192.168.1.50 that answers the handshake and the commands, announced under
  one service name; a host at 192.168.1.51 whose web server answers every path with an
  HTML page; lircd running. The library functions are given at the texts that occur here.
\<close>

definition handshake_body :: string where
  \<open>handshake_body = ''{"device": {"name": "DMP-A6", "host": "192.168.1.50"}}''\<close>

definition status_body :: string where
  \<open>status_body = ''{"status": 200}''\<close>

definition html_body :: string where
  \<open>html_body = ''<html><body>404 Not Found</body></html>''\<close>

definition dmpa6 :: DeviceInfo where
  "dmpa6 = \<lparr>name = PStr ''DMP-A6'', device_id = PStr ''192.168.1.50''\<rparr>"

definition dmpa6_text :: string where
  \<open>dmpa6_text = ''[{"name": "DMP-A6", "device_id": "192.168.1.50"}]''\<close>

definition lan :: env where
  "lan = \<lparr>
     json_loads = (\<lambda>text.
       if text = handshake_body then
         Inr (PDict [(''device'',
                PDict [(''name'', PStr ''DMP-A6''), (''host'', PStr ''192.168.1.50'')])])
       else if text = status_body then Inr (PDict [(''status'', PInt 200)])
       else Inl JSONDecodeError),
     json_dumps = (\<lambda>v. if v = devices_to_jsn [dmpa6] then dmpa6_text else ''null''),
     requests_get = (\<lambda>r.
       if host r = PStr ''192.168.1.50'' \<and> port r = 9529 then Inr handshake_body
       else Inl ConnectionError),
     session_get = (\<lambda>r.
       if host r = PStr ''192.168.1.50'' \<and> port r = 9529 then Inr status_body
       else if host r = PStr ''192.168.1.51'' then Inr html_body
       else Inl ConnectionError),
     get_service_info = (\<lambda>t n.
       if t = ''_adb._tcp.local.'' \<and> n = ''adb-dmpa6._adb._tcp.local.''
       then Some [''192.168.1.50''] else None),
     lirc_Client = Some (),
     read_icon = (\<lambda>filename. []),
     power_off = (\<lambda>ip. (Inr (), []))
   \<rparr>"

section \<open>Shared facts\<close>

lemmas command_ids =
  TOGGLE_POWER_def TOGGLE_DISPLAY_def TOGGLE_VU_def VOLUME_UP_def VOLUME_DOWN_def
  PLAY_PAUSE_def PLAY_NEXT_def PLAY_PREVIOUS_def INPUT_INTERNAL_PLAYER_def
  INPUT_BLUETOOTH_def INPUT_USB_def INPUT_OPTICAL_def INPUT_COAX_def OUTPUT_BALXLR_def
  OUTPUT_ANALOG_RCA_def OUTPUT_XLR_RCA_def OUTPUT_HDMI_def OUTPUT_SPDIF_def
  OUTPUT_USB_DAC_def

lemma catalog_ids:
  "map cmd_id (create_commands e device) =
     [1, 2, 3, 4, 5, 6, 7, 8, 10, 11, 12, 13, 14, 15, 16, 17, 18, 19, 20]"
  by (simp add: create_commands_def new_DmpA6PowerToggleCommand_def command_ids)

lemma layout_cells:
  "set (concat remote_layout) =
     {-1, 1, 2, 3, 4, 5, 6, 7, 8, 10, 11, 12, 13, 14, 15, 16, 17, 18, 19, 20}"
  by (auto simp add: remote_layout_def command_ids)

lemma first_of_filter:
  assumes "filter P xs \<noteq> []"
  shows "filter P xs ! 0 \<in> set xs \<and> P (filter P xs ! 0)"
proof -
  from assms have "0 < length (filter P xs)" by simp
  then have "filter P xs ! 0 \<in> set (filter P xs)" by (rule nth_mem)
  then have "filter P xs ! 0 \<in> {x \<in> set xs. P x}" by (simp only: set_filter)
  then show ?thesis by blast
qed

lemma get_command_found:
  assumes "cid \<in> cmd_id ` set (commands self)"
  shows "\<exists>c. get_command self cid = (Inr c, self) \<and> c \<in> set (commands self) \<and> cmd_id c = cid"
proof -
  let ?result = "filter (\<lambda>c. cmd_id c = cid) (commands self)"
  from assms have ne: "?result \<noteq> []" by (auto simp: filter_empty_conv)
  then have "?result ! 0 \<in> set (commands self) \<and> cmd_id (?result ! 0) = cid"
    by (rule first_of_filter)
  with ne show ?thesis by (simp add: get_command_def get_commands_def Let_def)
qed

lemma get_command_missing:
  assumes "cid \<notin> cmd_id ` set (commands self)"
  shows "get_command self cid =
           (Inl (CommandNotFoundException (name (device_info self)) cid), self)"
proof -
  from assms have "filter (\<lambda>c. cmd_id c = cid) (commands self) = []"
    by (auto simp: filter_empty_conv)
  then show ?thesis by (simp add: get_command_def get_commands_def Let_def)
qed

lemma get_devices_live:
  "devices s \<noteq> [] \<Longrightarrow> get_devices e s = (Inr (devices s), cache_devices e (devices s) s)"
  by (simp add: get_devices_def cache_devices_def Let_def)

lemma get_devices_no_entry:
  "devices s = [] \<Longrightarrow> cache s ''cached_devices'' = None \<Longrightarrow> get_devices e s = (Inr [], s)"
  by (simp add: get_devices_def cached_devices_def)

lemma get_devices_entry_raises:
  "devices s = [] \<Longrightarrow> cache s ''cached_devices'' = Some jsn \<Longrightarrow>
   get_devices e s = (Inl TypeError, s)"
  by (simp add: get_devices_def cached_devices_def json_loads_subscript_def)

lemma read_after_write_raises: "cached_devices e (cache_devices e ds s) = Inl TypeError"
  by (simp add: cached_devices_def cache_devices_def json_loads_subscript_def)

lemma get_devices_cache:
  "cache (snd (get_devices e s)) = cache s \<or>
   (devices s \<noteq> [] \<and>
    cache (snd (get_devices e s)) =
      (cache s)(''cached_devices'' \<mapsto> json_dumps e (devices_to_jsn (devices s))))"
  by (simp add: get_devices_def cache_devices_def Let_def)

lemma get_device_state: "snd (get_device e did s) = snd (get_devices e s)"
proof (cases "get_devices e s")
  case (Pair r s')
  then show ?thesis by (cases r) (simp_all add: get_device_def Let_def)
qed

lemma create_device_instance_state:
  "snd (create_device_instance e did s) = snd (get_devices e s)"
proof (cases "get_device e did s")
  case (Pair r s')
  then have "snd (create_device_instance e did s) = snd (get_device e did s)"
    by (cases r) (simp_all add: create_device_instance_def)
  then show ?thesis by (simp add: get_device_state)
qed

lemma add_service_cache: "cache (add_service e t n s) = cache s"
  by (simp add: add_service_def split: option.splits sum.splits)

lemma step_cache:
  "cache (step e ev s) = cache s \<or>
   (devices s \<noteq> [] \<and>
    cache (step e ev s) =
      (cache s)(''cached_devices'' \<mapsto> json_dumps e (devices_to_jsn (devices s))))"
  by (cases ev) (simp_all add: add_service_cache update_service_def remove_service_def
      get_devices_cache get_device_state create_device_instance_state)

lemma run_cache:
  "cache (run e evs s) = cache s \<or>
   (\<exists>ds. ds \<noteq> [] \<and>
      cache (run e evs s) = (cache s)(''cached_devices'' \<mapsto> json_dumps e (devices_to_jsn ds)))"
proof (induction evs arbitrary: s)
  case Nil
  show ?case by simp
next
  case (Cons ev evs)
  let ?s1 = "step e ev s"
  let ?W = "\<lambda>m ds. m(''cached_devices'' \<mapsto> json_dumps e (devices_to_jsn ds))"
  have unroll: "run e (ev # evs) s = run e evs ?s1" by simp
  have st: "cache ?s1 = cache s \<or> (devices s \<noteq> [] \<and> cache ?s1 = ?W (cache s) (devices s))"
    by (rule step_cache)
  have ih: "cache (run e evs ?s1) = cache ?s1 \<or>
      (\<exists>ds. ds \<noteq> [] \<and> cache (run e evs ?s1) = ?W (cache ?s1) ds)"
    by (rule Cons.IH)
  from ih show ?case
  proof
    assume same: "cache (run e evs ?s1) = cache ?s1"
    from st show ?thesis
    proof
      assume "cache ?s1 = cache s"
      with same have "cache (run e (ev # evs) s) = cache s" by simp
      then show ?thesis ..
    next
      assume "devices s \<noteq> [] \<and> cache ?s1 = ?W (cache s) (devices s)"
      with same have "devices s \<noteq> [] \<and> cache (run e (ev # evs) s) = ?W (cache s) (devices s)"
        by simp
      then show ?thesis by (intro disjI2 exI)
    qed
  next
    assume "\<exists>ds. ds \<noteq> [] \<and> cache (run e evs ?s1) = ?W (cache ?s1) ds"
    then obtain ds where ds: "ds \<noteq> []" "cache (run e evs ?s1) = ?W (cache ?s1) ds" by blast
    from st have "?W (cache ?s1) ds = ?W (cache s) ds"
    proof
      assume "cache ?s1 = cache s"
      then show ?thesis by (rule arg_cong)
    next
      assume "devices s \<noteq> [] \<and> cache ?s1 = ?W (cache s) (devices s)"
      then have "cache ?s1 = ?W (cache s) (devices s)" ..
      then show ?thesis by (simp only: fun_upd_upd)
    qed
    with ds have "ds \<noteq> [] \<and> cache (run e (ev # evs) s) = ?W (cache s) ds"
      by simp
    then show ?thesis by (intro disjI2 exI)
  qed
qed

lemma lan_service:
  "get_service_info lan ''_adb._tcp.local.'' ''adb-dmpa6._adb._tcp.local.'' =
     Some [''192.168.1.50'']"
  by (simp add: lan_def)

lemma confirm_dmpa6: "confirm_service lan [''192.168.1.50''] = Inr dmpa6"
  by (simp add: confirm_service_def connect_device_def lan_def handshake_body_def dmpa6_def)

lemma lan_dumps_dmpa6: "json_dumps lan (devices_to_jsn [dmpa6]) = dmpa6_text"
  by (simp add: lan_def)

lemma power_toggle_without_lirc:
  "execute e (DmpA6PowerToggleCommand i t ic ip None) = power_off e ip"
  by simp

lemma get_devices_error:
  assumes "get_devices e s = (Inl ex, s')"
  shows "ex = TypeError \<and> s' = s \<and> get_device e did s = (Inl TypeError, s)"
proof -
  from assms have "cached_devices e s = Inl ex \<and> s' = s"
    by (auto simp add: get_devices_def Let_def split: if_splits)
  moreover from this have "ex = TypeError"
    by (auto simp add: cached_devices_def json_loads_subscript_def split: option.splits)
  ultimately show ?thesis using assms by (simp add: get_device_def)
qed

lemma get_device_of_listing:
  assumes "get_devices e s = (Inr listed, s')"
  shows "(fst (get_device e did s) = Inl (DeviceNotFoundException did)
           \<longleftrightarrow> PStr did \<notin> device_id ` set listed)
       \<and> (PStr did \<in> device_id ` set listed \<longrightarrow>
            (\<exists>d. get_device e did s = (Inr d, s') \<and> d \<in> set listed \<and> device_id d = PStr did))"
proof -
  let ?found = "filter (\<lambda>d. device_id d = PStr did) listed"
  have gd: "get_device e did s =
      (if length ?found = 0 then (Inl (DeviceNotFoundException did), s')
       else (Inr (?found ! 0), s'))"
    using assms by (simp add: get_device_def Let_def)
  have emp: "?found = [] \<longleftrightarrow> PStr did \<notin> device_id ` set listed"
    by (force simp: filter_empty_conv image_iff)
  have mem: "?found \<noteq> [] \<Longrightarrow> ?found ! 0 \<in> set listed \<and> device_id (?found ! 0) = PStr did"
    by (rule first_of_filter)
  show ?thesis using gd emp mem by auto
qed

section \<open>The device listing and its cache\<close>

text \<open>
  C1. The listing writes the live list to the cache entry and returns it when the live list
  is not empty (\<open>get_devices_live\<close>), and returns an empty sequence when the live list is
  empty and there is no entry (\<open>get_devices_no_entry\<close>). With the live list empty and an
  entry present it is to return the entry's contents; the source reads the entry with
  \<open>json.loads[jsn]\<close> and raises \<open>TypeError\<close> instead, here on the entry an earlier
  listing of the sample device wrote.
\<close>

theorem get_devices_with_entry_raises:
  "get_devices lan \<lparr>devices = [], cache = [''cached_devices'' \<mapsto> dmpa6_text]\<rparr>
     = (Inl TypeError, \<lparr>devices = [], cache = [''cached_devices'' \<mapsto> dmpa6_text]\<rparr>)"
  by (simp add: get_devices_entry_raises)

text \<open>
  C2. Writing a list of descriptors with \<open>_cache_devices\<close> and reading it back with
  \<open>_cached_devices\<close> is to give the same sequence; for the one-device list the write stores
  the entry and the read raises \<open>TypeError\<close> (the same subscript as in C1).
\<close>

theorem cache_round_trip_raises:
  "cache (cache_devices lan [dmpa6] \<lparr>devices = [dmpa6], cache = Map.empty\<rparr>) ''cached_devices''
     = Some dmpa6_text
   \<and> cached_devices lan (cache_devices lan [dmpa6] \<lparr>devices = [dmpa6], cache = Map.empty\<rparr>)
     = Inl TypeError"
  by (simp add: read_after_write_raises) (simp add: cache_devices_def lan_dumps_dmpa6)

text \<open>
  C3. Whatever operation runs (a listener callback, \<open>get_devices\<close>, \<open>get_device\<close>,
  \<open>create_device_instance\<close>), it either leaves the cache file as it was or the live list
  was not empty and the entry \<open>cached_devices\<close> now holds the dump of that list; after any
  sequence of operations the file is the initial one or differs from it only in that entry,
  which then holds the dump of a list that is not empty.
\<close>

theorem cache_written_only_from_nonempty_list:
  "(cache (step e ev s) = cache s \<or>
    (devices s \<noteq> [] \<and>
     cache (step e ev s) =
       (cache s)(''cached_devices'' \<mapsto> json_dumps e (devices_to_jsn (devices s)))))
   \<and> (cache (run e evs s) = cache s \<or>
      (\<exists>ds. ds \<noteq> [] \<and>
         cache (run e evs s) =
           (cache s)(''cached_devices'' \<mapsto> json_dumps e (devices_to_jsn ds))))"
  using step_cache [of e ev s] run_cache [of e evs s] by (rule conjI)

theorem cache_written_only_from_nonempty_list_witness:
  "devices \<lparr>devices = [dmpa6], cache = Map.empty\<rparr> \<noteq> []
   \<and> cache (step lan GetDevices \<lparr>devices = [dmpa6], cache = Map.empty\<rparr>)
       = [''cached_devices'' \<mapsto> dmpa6_text]
   \<and> cache (step lan GetDevices \<lparr>devices = [], cache = Map.empty\<rparr>) = Map.empty"
  using cache_written_only_from_nonempty_list
          [of lan GetDevices "\<lparr>devices = [dmpa6], cache = Map.empty\<rparr>" "[]"]
  by (simp add: get_devices_live get_devices_no_entry cache_devices_def lan_dumps_dmpa6)

section \<open>Discovery\<close>

text \<open>
  C4, as stated: announcing one service name twice, with the same address and a handshake
  that succeeds both times, adds no second entry. In the sample network the second
  announcement adds the device again.
\<close>

theorem add_service_twice_duplicates:
  "devices (add_service lan ''_adb._tcp.local.'' ''adb-dmpa6._adb._tcp.local.''
     (add_service lan ''_adb._tcp.local.'' ''adb-dmpa6._adb._tcp.local.''
        \<lparr>devices = [], cache = Map.empty\<rparr>)) = [dmpa6, dmpa6]"
  by (simp add: add_service_def lan_service confirm_dmpa6)

text \<open>
  C4, amended. \<open>add_service\<close> keeps no record of the service names it has seen: every
  announcement whose service info resolves and whose handshake gives a device name and host
  appends one descriptor, so the same announcement processed twice appends two equal
  descriptors.
\<close>

theorem add_service_appends_each_time:
  assumes "get_service_info e t n = Some addresses"
    and "confirm_service e addresses = Inr info"
  shows "devices (add_service e t n s) = devices s @ [info]
       \<and> devices (add_service e t n (add_service e t n s)) = devices s @ [info, info]"
  using assms by (simp add: add_service_def)

theorem add_service_appends_each_time_witness:
  "get_service_info lan ''_adb._tcp.local.'' ''adb-dmpa6._adb._tcp.local.''
     = Some [''192.168.1.50'']
   \<and> confirm_service lan [''192.168.1.50''] = Inr dmpa6
   \<and> devices (add_service lan ''_adb._tcp.local.'' ''adb-dmpa6._adb._tcp.local.''
        \<lparr>devices = [dmpa6], cache = Map.empty\<rparr>) = [dmpa6, dmpa6]"
  using add_service_appends_each_time [OF lan_service confirm_dmpa6,
          of "\<lparr>devices = [dmpa6], cache = Map.empty\<rparr>"]
  by (simp add: lan_service confirm_dmpa6)

section \<open>Lookups\<close>

text \<open>
  C5. For an ID that some command of the driver's catalog carries, \<open>get_command\<close> returns
  a command of the catalog with that ID and leaves the driver as it was; for any other ID
  it raises \<open>CommandNotFoundException\<close>.
\<close>

theorem get_command_lookup:
  "(cid \<in> cmd_id ` set (commands self) \<longrightarrow>
      (\<exists>c. get_command self cid = (Inr c, self) \<and> c \<in> set (commands self) \<and> cmd_id c = cid))
   \<and> (cid \<notin> cmd_id ` set (commands self) \<longrightarrow>
      get_command self cid =
        (Inl (CommandNotFoundException (name (device_info self)) cid), self))"
  using get_command_found [of cid self] get_command_missing [of cid self] by blast

theorem get_command_lookup_witness:
  "PLAY_PAUSE \<in> cmd_id ` set (commands (new_DmpA6DeviceDriver lan dmpa6))
   \<and> cmd_id (projr (fst (get_command (new_DmpA6DeviceDriver lan dmpa6) PLAY_PAUSE))) = PLAY_PAUSE
   \<and> snd (get_command (new_DmpA6DeviceDriver lan dmpa6) PLAY_PAUSE) = new_DmpA6DeviceDriver lan dmpa6
   \<and> 9 \<notin> cmd_id ` set (commands (new_DmpA6DeviceDriver lan dmpa6))
   \<and> get_command (new_DmpA6DeviceDriver lan dmpa6) 9 =
       (Inl (CommandNotFoundException (PStr ''DMP-A6'') 9), new_DmpA6DeviceDriver lan dmpa6)"
proof -
  have ids: "cmd_id ` set (commands (new_DmpA6DeviceDriver lan dmpa6)) =
      {1, 2, 3, 4, 5, 6, 7, 8, 10, 11, 12, 13, 14, 15, 16, 17, 18, 19, 20}"
    unfolding set_map [symmetric] by (simp add: new_DmpA6DeviceDriver_def catalog_ids)
  have nm: "name (device_info (new_DmpA6DeviceDriver lan dmpa6)) = PStr ''DMP-A6''"
    by (simp add: new_DmpA6DeviceDriver_def dmpa6_def)
  have a: "PLAY_PAUSE \<in> cmd_id ` set (commands (new_DmpA6DeviceDriver lan dmpa6))"
    unfolding ids by (simp add: PLAY_PAUSE_def)
  have b: "9 \<notin> cmd_id ` set (commands (new_DmpA6DeviceDriver lan dmpa6))"
    unfolding ids by simp
  from get_command_lookup [of PLAY_PAUSE "new_DmpA6DeviceDriver lan dmpa6"] a
  obtain c where "get_command (new_DmpA6DeviceDriver lan dmpa6) PLAY_PAUSE
        = (Inr c, new_DmpA6DeviceDriver lan dmpa6)" "cmd_id c = PLAY_PAUSE"
    by blast
  moreover from get_command_lookup [of 9 "new_DmpA6DeviceDriver lan dmpa6"] b
  have "get_command (new_DmpA6DeviceDriver lan dmpa6) 9 =
       (Inl (CommandNotFoundException (PStr ''DMP-A6'') 9), new_DmpA6DeviceDriver lan dmpa6)"
    by (simp add: nm)
  ultimately show ?thesis using a b by simp
qed

text \<open>
  C6. \<open>get_device\<close> is to raise \<open>DeviceNotFoundException\<close> exactly when the listing has
  no descriptor with the given ID and to return that descriptor otherwise. It does so
  whenever the listing returns (\<open>get_device_of_listing\<close>). With the live list empty and a
  cache entry present the listing raises \<open>TypeError\<close> (the subscript of C1), and
  \<open>get_device\<close> raises it too: for the ID of the cached device, which is to be returned,
  and for an ID that is nowhere, which is to give \<open>DeviceNotFoundException\<close>.
\<close>

theorem get_device_with_entry_raises:
  "get_device lan ''192.168.1.50'' \<lparr>devices = [], cache = [''cached_devices'' \<mapsto> dmpa6_text]\<rparr>
     = (Inl TypeError, \<lparr>devices = [], cache = [''cached_devices'' \<mapsto> dmpa6_text]\<rparr>)
   \<and> get_device lan ''192.168.1.77'' \<lparr>devices = [], cache = [''cached_devices'' \<mapsto> dmpa6_text]\<rparr>
     = (Inl TypeError, \<lparr>devices = [], cache = [''cached_devices'' \<mapsto> dmpa6_text]\<rparr>)"
proof -
  let ?s = "\<lparr>devices = [], cache = [''cached_devices'' \<mapsto> dmpa6_text]\<rparr>"
  have listing: "get_devices lan ?s = (Inl TypeError, ?s)"
    by (simp add: get_devices_entry_raises)
  from get_devices_error [OF listing] show ?thesis by simp
qed

section \<open>The control client and the power toggle\<close>

text \<open>
  C7, as stated: when the body of the response does not parse as JSON, a command call
  raises nothing and returns an error result. The host at 192.168.1.51 answers with an HTML
  page, \<open>json.loads\<close> raises on it, and both \<open>_execute_command\<close> and \<open>play_or_pause\<close>
  end with that exception.
\<close>

theorem play_or_pause_parse_failure_raises:
  "session_get lan \<lparr>host = PStr ''192.168.1.51'', port = 9529,
                    uri = ''/ZidooMusicControl/v2/playOrPause''\<rparr> = Inr html_body
   \<and> json_loads lan html_body = Inl JSONDecodeError
   \<and> fst (execute_command lan (PStr ''192.168.1.51'') 9529
            ''/ZidooMusicControl/v2/playOrPause'') = Inl JSONDecodeError
   \<and> fst (play_or_pause lan (PStr ''192.168.1.51'') 9529) = Inl JSONDecodeError"
  by (simp add: play_or_pause_def execute_command_def check_status_def Let_def lan_def
      html_body_def handshake_body_def status_body_def)

text \<open>
  C7, amended. The client has no handler: when the body of the response does not parse,
  \<open>_execute_command\<close> raises the exception of \<open>json.loads\<close> after its one GET, and a
  command function built on it (\<open>play_or_pause\<close> for one) raises the same exception to
  its caller; no value is returned.
\<close>

theorem parse_failure_is_raised:
  assumes "session_get e \<lparr>host = ip, port = prt, uri = u\<rparr> = Inr body"
    and "json_loads e body = Inl ex"
  shows "execute_command e ip prt u = (Inl ex, [HttpGet \<lparr>host = ip, port = prt, uri = u\<rparr>])
       \<and> check_status (execute_command e ip prt u)
           = (Inl ex, [HttpGet \<lparr>host = ip, port = prt, uri = u\<rparr>])
       \<and> (u = ''/ZidooMusicControl/v2/playOrPause'' \<longrightarrow>
            play_or_pause e ip prt = (Inl ex, [HttpGet \<lparr>host = ip, port = prt, uri = u\<rparr>]))"
  using assms by (auto simp add: play_or_pause_def execute_command_def check_status_def Let_def)

theorem parse_failure_is_raised_witness:
  "session_get lan \<lparr>host = PStr ''192.168.1.51'', port = 9529,
                    uri = ''/ZidooMusicControl/v2/playOrPause''\<rparr> = Inr html_body
   \<and> json_loads lan html_body = Inl JSONDecodeError
   \<and> play_or_pause lan (PStr ''192.168.1.51'') 9529
       = (Inl JSONDecodeError,
          [HttpGet \<lparr>host = PStr ''192.168.1.51'', port = 9529,
                    uri = ''/ZidooMusicControl/v2/playOrPause''\<rparr>])"
proof -
  have get: "session_get lan \<lparr>host = PStr ''192.168.1.51'', port = 9529,
                    uri = ''/ZidooMusicControl/v2/playOrPause''\<rparr> = Inr html_body"
    by (simp add: lan_def)
  have parse: "json_loads lan html_body = Inl JSONDecodeError"
    by (simp add: lan_def html_body_def handshake_body_def status_body_def)
  from parse_failure_is_raised [OF get parse] get parse show ?thesis by simp
qed

text \<open>
  C8. The power toggle is to emit the infrared code when the infrared client initialised,
  and to fall back to the HTTP power-off otherwise. With lircd running, \<open>lirc.Client()\<close>
  succeeds and \<open>execute\<close> takes the branch that is only \<open>pass\<close>: it returns with no
  infrared code sent and no request made.
\<close>

theorem power_toggle_with_lirc_does_nothing:
  "lirc_Client lan = Some ()
   \<and> create_commands lan (PStr ''192.168.1.50'') ! 0
       = new_DmpA6PowerToggleCommand lan TOGGLE_POWER ''On/Off''
           (read_icon lan ''toggle-power.png'') (PStr ''192.168.1.50'')
   \<and> execute lan (create_commands lan (PStr ''192.168.1.50'') ! 0) = (Inr (), [])"
  by (simp add: create_commands_def new_DmpA6PowerToggleCommand_def lan_def)

section \<open>The catalog and the layout\<close>



text \<open>
  C9. The layout is a fixed grid, 3 wide and 9 tall: \<open>remote_layout_size\<close> is \<open>(3, 9)\<close>,
  \<open>remote_layout\<close> has 9 rows of 3 entries each, its cell (0,0) is the power-toggle
  command ID and its cell (1,1) is the empty-slot sentinel -1.
\<close>

theorem remote_layout_grid:
  "remote_layout_size = (3, 9)
   \<and> length remote_layout = 9
   \<and> map length remote_layout = replicate 9 3
   \<and> remote_layout ! 0 ! 0 = TOGGLE_POWER
   \<and> remote_layout ! 1 ! 1 = -1"
  by (simp add: remote_layout_size_def remote_layout_def numeral_eq_Suc)

text \<open>
  C10. For every device address the IDs of the catalog are pairwise distinct, and every
  entry of the layout other than the sentinel -1 is the ID of a command of the catalog, so
  that \<open>get_command\<close> of a driver built for the device returns a command for it.
\<close>

theorem catalog_distinct_and_covers_layout:
  "distinct (map cmd_id (create_commands e device))
   \<and> (\<forall>x \<in> set (concat remote_layout). x \<noteq> -1 \<longrightarrow>
        x \<in> cmd_id ` set (create_commands e device)
        \<and> (\<exists>c. fst (get_command (new_DmpA6DeviceDriver e info) x) = Inr c \<and> cmd_id c = x))"
proof -
  have d: "distinct (map cmd_id (create_commands e device))"
    by (simp add: catalog_ids)
  have m: "x \<in> cmd_id ` set (create_commands e dv)"
    if "x \<in> set (concat remote_layout)" "x \<noteq> -1" for x dv
    using that unfolding layout_cells set_map [symmetric] catalog_ids by auto
  have g: "\<exists>c. fst (get_command (new_DmpA6DeviceDriver e info) x) = Inr c \<and> cmd_id c = x"
    if "x \<in> set (concat remote_layout)" "x \<noteq> -1" for x
  proof -
    from m [OF that, of "device_id info"]
    have "x \<in> cmd_id ` set (commands (new_DmpA6DeviceDriver e info))"
      by (simp add: new_DmpA6DeviceDriver_def)
    from get_command_found [OF this] show ?thesis by auto
  qed
  from d m g show ?thesis by blast
qed

theorem catalog_distinct_and_covers_layout_witness:
  "PLAY_NEXT \<in> set (concat remote_layout) \<and> PLAY_NEXT \<noteq> -1
   \<and> PLAY_NEXT \<in> cmd_id ` set (create_commands lan (PStr ''192.168.1.50''))
   \<and> cmd_id (projr (fst (get_command (new_DmpA6DeviceDriver lan dmpa6) PLAY_NEXT))) = PLAY_NEXT"
proof -
  have a: "PLAY_NEXT \<in> set (concat remote_layout)"
    unfolding layout_cells by (simp add: PLAY_NEXT_def)
  have b: "PLAY_NEXT \<noteq> -1" by (simp add: PLAY_NEXT_def)
  from catalog_distinct_and_covers_layout [of lan "PStr ''192.168.1.50''" dmpa6] a b
  have "PLAY_NEXT \<in> cmd_id ` set (create_commands lan (PStr ''192.168.1.50''))
        \<and> (\<exists>c. fst (get_command (new_DmpA6DeviceDriver lan dmpa6) PLAY_NEXT) = Inr c
               \<and> cmd_id c = PLAY_NEXT)"
    by blast
  with a b show ?thesis by auto
qed

end
